theory Spec2Isabelle
  imports Main
begin

section \<open>JavaScript values\<close>

text \<open>
  The values the handlers test for truthiness or interpolate into template literals.
  \<open>JObject\<close> stands for any object or array (always truthy); numbers are the integers
  a JSON body can carry.
\<close>

datatype jsval =
    JUndefined
  | JNull
  | JBool bool
  | JNum int
  | JStr string
  | JObject

fun truthy :: "jsval \<Rightarrow> bool" where
  "truthy JUndefined = False"
| "truthy JNull = False"
| "truthy (JBool b) = b"
| "truthy (JNum n) = (n \<noteq> 0)"
| "truthy (JStr s) = (s \<noteq> [])"
| "truthy JObject = True"

text \<open>\<open>a || b\<close>: the left operand when it is truthy, else the right one.\<close>

definition js_or :: "jsval \<Rightarrow> jsval \<Rightarrow> jsval" where
  "js_or a b = (if truthy a then a else b)"

text \<open>
  A value that is a string or \<open>null\<close> (\<open>localStorage.getItem\<close>, an environment
  variable) is \<open>string option\<close>, \<open>None\<close> being \<open>null\<close> or \<open>undefined\<close>.
\<close>

definition truthy_str :: "string option \<Rightarrow> bool" where
  "truthy_str v = (case v of None \<Rightarrow> False | Some s \<Rightarrow> s \<noteq> [])"

text \<open>\<open>${v}\<close> in a template literal: \<open>null\<close> is rendered as the text \<open>null\<close>.\<close>

definition template_str :: "string option \<Rightarrow> string" where
  "template_str v = (case v of None \<Rightarrow> ''null'' | Some s \<Rightarrow> s)"

section \<open>The browser environment\<close>

record browser =
  localStorage :: "string \<rightharpoonup> string"
  REACT_APP_BACKEND_URL :: "string option"

definition getItem :: "browser \<Rightarrow> string \<Rightarrow> string option" where
  "getItem b k = localStorage b k"

definition default_backend_url :: string where
  "default_backend_url = ''https://lab-report-hub-1.preview.emergentagent.com/api''"

text \<open>\<open>process.env.REACT_APP_BACKEND_URL || '<default>'\<close>\<close>

definition backend_url :: "browser \<Rightarrow> string" where
  "backend_url b =
     (if truthy_str (REACT_APP_BACKEND_URL b)
      then template_str (REACT_APP_BACKEND_URL b)
      else default_backend_url)"

section \<open>The HTTP client (lib/api)\<close>

datatype js_file = File (file_name: string) (file_content: string)

datatype form_value = FileField js_file | TextField string

text \<open>
  A request configuration: what the caller passes to \<open>api.get\<close>, \<open>api.post\<close> or
  \<open>api.delete\<close>, together with the instance's \<open>baseURL\<close>. \<open>headers\<close> holds the
  headers the caller and the interceptor set.
\<close>

record config =
  http_method :: string
  url :: string
  baseURL :: string
  headers :: "string \<rightharpoonup> string"
  data :: "(string \<times> form_value) list option"
  responseType :: "string option"

text \<open>
  The request interceptor: it reads the token from local storage and, when the token is
  truthy, sets the Authorization header; otherwise the configuration passes unchanged.
\<close>

definition request_interceptor :: "browser \<Rightarrow> config \<Rightarrow> config" where
  "request_interceptor b cfg =
     (case getItem b ''token'' of
        None \<Rightarrow> cfg
      | Some token \<Rightarrow>
          if token \<noteq> []
          then cfg\<lparr>headers := (headers cfg)(''Authorization'' \<mapsto> ''Bearer '' @ token)\<rparr>
          else cfg)"

text \<open>The configuration that leaves the client: every call runs through the interceptor.\<close>

definition api_get :: "browser \<Rightarrow> string \<Rightarrow> string option \<Rightarrow> config" where
  "api_get b u rt =
     request_interceptor b
       \<lparr>http_method = ''get'', url = u, baseURL = backend_url b, headers = Map.empty,
        data = None, responseType = rt\<rparr>"

definition api_post :: "browser \<Rightarrow> string \<Rightarrow> (string \<times> form_value) list \<Rightarrow> (string \<rightharpoonup> string) \<Rightarrow> config" where
  "api_post b u body hs =
     request_interceptor b
       \<lparr>http_method = ''post'', url = u, baseURL = backend_url b, headers = hs,
        data = Some body, responseType = None\<rparr>"

definition api_delete :: "browser \<Rightarrow> string \<Rightarrow> config" where
  "api_delete b u =
     request_interceptor b
       \<lparr>http_method = ''delete'', url = u, baseURL = backend_url b, headers = Map.empty,
        data = None, responseType = None\<rparr>"

section \<open>Routing (App)\<close>

record user_info =
  email :: string
  role :: string

text \<open>What \<open>useAuth\<close> hands to the components: the user (\<open>None\<close> is \<open>null\<close>) and the
  flag that session restoration is pending.\<close>

record auth =
  user :: "user_info option"
  loading :: bool

datatype view =
    LoadingView
  | Navigate string
  | AuthPageView string
  | AdminDashboardView
  | UserDashboardView
  | NoMatch

definition ProtectedRoute :: "auth \<Rightarrow> bool \<Rightarrow> view \<Rightarrow> view" where
  "ProtectedRoute a requireAdmin children =
     (if loading a then LoadingView
      else case user a of
        None \<Rightarrow> Navigate ''/login''
      | Some u \<Rightarrow>
          if requireAdmin \<and> role u \<noteq> ''admin'' then Navigate ''/''
          else children)"

text \<open>\<open>user?.role === 'admin'\<close>: false when there is no user.\<close>

definition DashboardRouter :: "auth \<Rightarrow> view" where
  "DashboardRouter a =
     (case user a of
        None \<Rightarrow> UserDashboardView
      | Some u \<Rightarrow> if role u = ''admin'' then AdminDashboardView else UserDashboardView)"

text \<open>The route table of \<open>App\<close>; the root route passes no \<open>requireAdmin\<close>, whose
  default is \<open>false\<close>.\<close>

definition App :: "auth \<Rightarrow> string \<Rightarrow> view" where
  "App a path =
     (if path = ''/login'' then AuthPageView ''login''
      else if path = ''/register'' then AuthPageView ''register''
      else if path = ''/'' then ProtectedRoute a False (DashboardRouter a)
      else NoMatch)"

section \<open>Promises, errors and observable effects\<close>

text \<open>
  An error caught by a handler. \<open>response\<close> is \<open>None\<close> when \<open>err.response\<close> is
  undefined (the request never got an answer); \<open>body\<close> is \<open>None\<close> when
  \<open>response.data\<close> is null or undefined; \<open>detail\<close> is \<open>JUndefined\<close> when the body
  has no such field.
\<close>

datatype error_body = ErrorBody (detail: jsval)

datatype error_response = ErrorResponse (body: "error_body option")

datatype api_error = AxiosError (response: "error_response option")

text \<open>\<open>err.response?.data?.detail\<close>\<close>

definition err_detail :: "api_error \<Rightarrow> jsval" where
  "err_detail err =
     (case response err of
        None \<Rightarrow> JUndefined
      | Some r \<Rightarrow> (case body r of None \<Rightarrow> JUndefined | Some d \<Rightarrow> detail d))"

text \<open>How a request's promise settles: with the response's \<open>data\<close>, or with an error.\<close>

datatype 'a outcome = Resolved 'a | Rejected api_error

text \<open>
  \<open>Promise.all\<close> of two promises: the pair of results when both resolve, a rejection
  when either rejects. (When both reject, the earlier rejection in time wins; no handler
  looks at it, and the model takes the first in order.)
\<close>

fun promise_all :: "'a outcome \<Rightarrow> 'b outcome \<Rightarrow> ('a \<times> 'b) outcome" where
  "promise_all (Rejected e) _ = Rejected e"
| "promise_all (Resolved x) (Rejected e) = Rejected e"
| "promise_all (Resolved x) (Resolved y) = Resolved (x, y)"

type_synonym blob = string

text \<open>\<open>new Blob(parts)\<close>: the parts, concatenated.\<close>

definition Blob :: "blob list \<Rightarrow> blob" where
  "Blob parts = concat parts"

text \<open>The URL that \<open>URL.createObjectURL\<close> returns, identified by the blob it serves.\<close>

datatype object_url = ObjectURL blob

text \<open>An anchor element, with the two attributes the download handler writes.\<close>

record link =
  href :: "object_url option"
  download :: "string option"

definition createElement_a :: link where
  "createElement_a = \<lparr>href = None, download = None\<rparr>"

text \<open>What a handler does to the outside world, in the order it does it.\<close>

datatype event =
    PreventDefault
  | ApiRequest config
  | ToastSuccess string
  | ToastError jsval
  | WindowConfirm string
  | WindowOpen string string
  | CreateObjectURL blob
  | AppendChild link
  | Click link
  | Remove link

fun api_requests :: "event list \<Rightarrow> config list" where
  "api_requests [] = []"
| "api_requests (ApiRequest c # es) = c # api_requests es"
| "api_requests (_ # es) = api_requests es"

fun notices :: "event list \<Rightarrow> jsval list" where
  "notices [] = []"
| "notices (ToastError m # es) = m # notices es"
| "notices (_ # es) = notices es"

text \<open>
  The files the browser saves: a click on an anchor that carries an object URL and a
  \<open>download\<close> attribute saves the URL's blob under the attribute's value.
\<close>

fun saved_files :: "event list \<Rightarrow> (blob \<times> string) list" where
  "saved_files [] = []"
| "saved_files (Click l # es) =
     (case (href l, download l) of
        (Some (ObjectURL c), Some n) \<Rightarrow> (c, n) # saved_files es
      | _ \<Rightarrow> saved_files es)"
| "saved_files (_ # es) = saved_files es"

section \<open>The admin dashboard (pages/AdminDashboard)\<close>

record report =
  id_r :: string
  original_name :: string
  user_email :: string
  file_type :: string
  created_at :: string

record account =
  id_u :: string
  email_u :: string

text \<open>
  The four \<open>useState\<close> cells. \<open>file_sel\<close> is the cell \<open>file\<close>: \<open>None\<close> for
  \<open>null\<close> and for the \<open>undefined\<close> that an empty file list yields.
\<close>

record admin_state =
  reports :: "report list"
  users :: "account list"
  selectedUser :: string
  file_sel :: "js_file option"

definition admin_initial :: admin_state where
  "admin_initial = \<lparr>reports = [], users = [], selectedUser = [], file_sel = None\<rparr>"

text \<open>
  The body of the \<open>try\<close> block of \<open>fetchData\<close>: both requests are issued before either
  is awaited; the third component is the error thrown, if any.
\<close>

definition fetchData_try ::
  "browser \<Rightarrow> report list outcome \<Rightarrow> account list outcome \<Rightarrow> admin_state
   \<Rightarrow> admin_state \<times> event list \<times> api_error option" where
  "fetchData_try b reportsRes usersRes s =
     (let reqs = [ApiRequest (api_get b ''/reports'' None), ApiRequest (api_get b ''/users'' None)]
      in case promise_all reportsRes usersRes of
           Rejected err \<Rightarrow> (s, reqs, Some err)
         | Resolved (rs, us) \<Rightarrow> (s\<lparr>reports := rs, users := us\<rparr>, reqs, None))"

definition fetchData ::
  "browser \<Rightarrow> report list outcome \<Rightarrow> account list outcome \<Rightarrow> admin_state
   \<Rightarrow> admin_state \<times> event list" where
  "fetchData b reportsRes usersRes s =
     (case fetchData_try b reportsRes usersRes s of
        (s', ev, None) \<Rightarrow> (s', ev)
      | (s', ev, Some err) \<Rightarrow> (s', ev @ [ToastError (JStr ''Failed to fetch dashboard data'')]))"

text \<open>\<open>formData.append(name, value)\<close>: a value that is not a file is sent as text.\<close>

definition form_file :: "js_file option \<Rightarrow> form_value" where
  "form_file f = (case f of None \<Rightarrow> TextField ''null'' | Some x \<Rightarrow> FileField x)"

definition FormData_append ::
  "(string \<times> form_value) list \<Rightarrow> string \<Rightarrow> form_value \<Rightarrow> (string \<times> form_value) list" where
  "FormData_append fd name v = fd @ [(name, v)]"

text \<open>The \<open>try\<close> block of \<open>handleUpload\<close>; \<open>fetchData()\<close> is started, not awaited, and
  handles its own errors.\<close>

definition handleUpload_try ::
  "browser \<Rightarrow> unit outcome \<Rightarrow> report list outcome \<Rightarrow> account list outcome
   \<Rightarrow> (string \<times> form_value) list \<Rightarrow> admin_state
   \<Rightarrow> admin_state \<times> event list \<times> api_error option" where
  "handleUpload_try b postRes reportsRes usersRes formData s =
     (let req = ApiRequest (api_post b ''/reports/upload'' formData
                  [''Content-Type'' \<mapsto> ''multipart/form-data''])
      in case postRes of
           Rejected err \<Rightarrow> (s, [req], Some err)
         | Resolved _ \<Rightarrow>
             (let s1 = s\<lparr>file_sel := None\<rparr>;
                  s2 = s1\<lparr>selectedUser := []\<rparr>;
                  (s3, ev) = fetchData b reportsRes usersRes s2
              in (s3, [req, ToastSuccess ''Report uploaded successfully''] @ ev, None)))"

definition handleUpload ::
  "browser \<Rightarrow> unit outcome \<Rightarrow> report list outcome \<Rightarrow> account list outcome
   \<Rightarrow> admin_state \<Rightarrow> admin_state \<times> event list" where
  "handleUpload b postRes reportsRes usersRes s =
     (if file_sel s = None \<or> selectedUser s = []
      then (s, [PreventDefault, ToastError (JStr ''Please select both a file and a user'')])
      else
        (let formData = FormData_append [] ''file'' (form_file (file_sel s));
             formData = FormData_append formData ''user_email'' (TextField (selectedUser s))
         in case handleUpload_try b postRes reportsRes usersRes formData s of
              (s', ev, None) \<Rightarrow> (s', PreventDefault # ev)
            | (s', ev, Some err) \<Rightarrow>
                (s', PreventDefault # ev @
                     [ToastError (js_or (err_detail err) (JStr ''Upload failed''))])))"

text \<open>The \<open>try\<close> block of \<open>handleDelete\<close>.\<close>

definition handleDelete_try ::
  "browser \<Rightarrow> unit outcome \<Rightarrow> report list outcome \<Rightarrow> account list outcome
   \<Rightarrow> string \<Rightarrow> admin_state \<Rightarrow> admin_state \<times> event list \<times> api_error option" where
  "handleDelete_try b deleteRes reportsRes usersRes ident s =
     (let req = ApiRequest (api_delete b (''/reports/'' @ ident))
      in case deleteRes of
           Rejected err \<Rightarrow> (s, [req], Some err)
         | Resolved _ \<Rightarrow>
             (let (s1, ev) = fetchData b reportsRes usersRes s
              in (s1, [req, ToastSuccess ''Report deleted''] @ ev, None)))"

text \<open>\<open>confirmed\<close> is what \<open>window.confirm\<close> returns.\<close>

definition handleDelete ::
  "browser \<Rightarrow> bool \<Rightarrow> unit outcome \<Rightarrow> report list outcome \<Rightarrow> account list outcome
   \<Rightarrow> string \<Rightarrow> admin_state \<Rightarrow> admin_state \<times> event list" where
  "handleDelete b confirmed deleteRes reportsRes usersRes ident s =
     (let ask = WindowConfirm ''Are you sure you want to delete this report?''
      in if \<not> confirmed then (s, [ask])
         else case handleDelete_try b deleteRes reportsRes usersRes ident s of
                (s', ev, None) \<Rightarrow> (s', ask # ev)
              | (s', ev, Some err) \<Rightarrow> (s', ask # ev @ [ToastError (JStr ''Delete failed'')]))"

section \<open>The user dashboard (pages/UserDashboard)\<close>

text \<open>The \<open>try\<close> block of \<open>handleDownload\<close>.\<close>

definition handleDownload_try ::
  "browser \<Rightarrow> blob outcome \<Rightarrow> string \<Rightarrow> string \<Rightarrow> event list \<times> api_error option" where
  "handleDownload_try b res reportId filename =
     (let req = ApiRequest (api_get b (''/reports/'' @ reportId @ ''/download'') (Some ''blob''))
      in case res of
           Rejected err \<Rightarrow> ([req], Some err)
         | Resolved d \<Rightarrow>
             (let content = Blob [d];
                  u = ObjectURL content;
                  l0 = createElement_a;
                  l1 = l0\<lparr>href := Some u\<rparr>;
                  l2 = l1\<lparr>download := Some filename\<rparr>
              in ([req, CreateObjectURL content, AppendChild l2, Click l2, Remove l2], None)))"

definition handleDownload :: "browser \<Rightarrow> blob outcome \<Rightarrow> string \<Rightarrow> string \<Rightarrow> event list" where
  "handleDownload b res reportId filename =
     (case handleDownload_try b res reportId filename of
        (ev, None) \<Rightarrow> ev
      | (ev, Some err) \<Rightarrow> ev @ [ToastError (JStr ''Download failed'')])"

definition handlePreview :: "browser \<Rightarrow> string \<Rightarrow> event list" where
  "handlePreview b reportId =
     (let baseUrl = backend_url b;
          token = getItem b ''token''
      in [WindowOpen (baseUrl @ ''/reports/'' @ reportId @ ''/preview?token='' @ template_str token)
            ''_blank''])"

text \<open>The two buttons of a report card.\<close>

definition preview_onClick :: "browser \<Rightarrow> report \<Rightarrow> event list" where
  "preview_onClick b r = handlePreview b (id_r r)"

definition download_onClick :: "browser \<Rightarrow> blob outcome \<Rightarrow> report \<Rightarrow> event list" where
  "download_onClick b res r = handleDownload b res (id_r r) (original_name r)"

section \<open>The request interceptor\<close>

lemma interceptor_headers:
  "headers (request_interceptor b cfg) =
     (case getItem b ''token'' of
        None \<Rightarrow> headers cfg
      | Some t \<Rightarrow> if t \<noteq> [] then (headers cfg)(''Authorization'' \<mapsto> ''Bearer '' @ t) else headers cfg)"
  by (simp add: request_interceptor_def split: option.split)

lemma interceptor_frame:
  "http_method (request_interceptor b cfg) = http_method cfg \<and>
   url (request_interceptor b cfg) = url cfg \<and>
   baseURL (request_interceptor b cfg) = baseURL cfg \<and>
   data (request_interceptor b cfg) = data cfg \<and>
   responseType (request_interceptor b cfg) = responseType cfg \<and>
   (\<forall>k. k \<noteq> ''Authorization'' \<longrightarrow> headers (request_interceptor b cfg) k = headers cfg k)"
  by (simp add: request_interceptor_def split: option.split)

text \<open>
  C1 (as amended). For every outgoing request whose caller set no Authorization header
  of its own, the request that leaves the client carries \<open>Authorization: Bearer <token>\<close>
  if and only if a non-empty token string is stored under \<open>token\<close> in local storage at
  the time the request is issued. It carries an Authorization header at all only in that
  case; when no token is stored, or the stored string is empty, the configuration passes
  through the interceptor unchanged, so the request is sent without the header.
\<close>

theorem interceptor_bearer_iff_nonempty_token:
  assumes "headers cfg ''Authorization'' = None"
  shows "(headers (request_interceptor b cfg) ''Authorization'' = Some (''Bearer '' @ t)
            \<longleftrightarrow> getItem b ''token'' = Some t \<and> t \<noteq> [])
       \<and> (headers (request_interceptor b cfg) ''Authorization'' \<noteq> None
            \<longleftrightarrow> (\<exists>t'. getItem b ''token'' = Some t' \<and> t' \<noteq> []))
       \<and> (getItem b ''token'' = None \<or> getItem b ''token'' = Some []
            \<longrightarrow> request_interceptor b cfg = cfg)"
  using assms by (auto simp add: request_interceptor_def split: option.splits)

theorem interceptor_bearer_iff_nonempty_token_witness:
  "headers (api_get \<lparr>localStorage = [''token'' \<mapsto> ''abc''], REACT_APP_BACKEND_URL = None\<rparr> ''/reports'' None)
     ''Authorization'' = Some ''Bearer abc''"
  using interceptor_bearer_iff_nonempty_token
    [of "\<lparr>http_method = ''get'', url = ''/reports'',
          baseURL = backend_url \<lparr>localStorage = [''token'' \<mapsto> ''abc''], REACT_APP_BACKEND_URL = None\<rparr>,
          headers = Map.empty, data = None, responseType = None\<rparr>"
        "\<lparr>localStorage = [''token'' \<mapsto> ''abc''], REACT_APP_BACKEND_URL = None\<rparr>" "''abc''"]
  by (simp add: api_get_def getItem_def)

text \<open>
  As first stated, C1 asks for the header whenever a token string is present in local
  storage. The interceptor tests the string for truthiness, so a stored empty string is
  treated like no token: the string is there, the header is not.
\<close>

theorem interceptor_empty_token_counterexample:
  "getItem \<lparr>localStorage = [''token'' \<mapsto> ''''], REACT_APP_BACKEND_URL = None\<rparr> ''token'' = Some ''''
   \<and> headers (api_get \<lparr>localStorage = [''token'' \<mapsto> ''''], REACT_APP_BACKEND_URL = None\<rparr> ''/reports'' None)
        ''Authorization'' = None"
  by (simp add: api_get_def getItem_def request_interceptor_def)

section \<open>The authorization gate and the root route\<close>

text \<open>
  C2. On every access to a protected region the gate shows the loading state while
  session restoration is pending. Once it is no longer pending: with no authenticated
  user the gate redirects to the login view; with a user whose role is not \<open>admin\<close> on a
  region that requires the admin role it redirects to the root view; in every other
  case it renders the protected content.
\<close>

theorem ProtectedRoute_gate:
  "(loading a \<longrightarrow> ProtectedRoute a requireAdmin children = LoadingView)
   \<and> (\<not> loading a \<and> user a = None \<longrightarrow>
        ProtectedRoute a requireAdmin children = Navigate ''/login'')
   \<and> (\<not> loading a \<and> user a = Some u \<and> requireAdmin \<and> role u \<noteq> ''admin'' \<longrightarrow>
        ProtectedRoute a requireAdmin children = Navigate ''/'')
   \<and> (\<not> loading a \<and> user a = Some u \<and> (role u = ''admin'' \<or> \<not> requireAdmin) \<longrightarrow>
        ProtectedRoute a requireAdmin children = children)"
  by (auto simp add: ProtectedRoute_def)

theorem ProtectedRoute_gate_witness:
  "ProtectedRoute \<lparr>user = None, loading = True\<rparr> True AdminDashboardView = LoadingView
   \<and> ProtectedRoute \<lparr>user = None, loading = False\<rparr> False UserDashboardView = Navigate ''/login''
   \<and> ProtectedRoute \<lparr>user = Some \<lparr>email = ''p@example.com'', role = ''user''\<rparr>, loading = False\<rparr>
        True AdminDashboardView = Navigate ''/''
   \<and> ProtectedRoute \<lparr>user = Some \<lparr>email = ''p@example.com'', role = ''user''\<rparr>, loading = False\<rparr>
        False UserDashboardView = UserDashboardView
   \<and> ProtectedRoute \<lparr>user = Some \<lparr>email = ''a@example.com'', role = ''admin''\<rparr>, loading = False\<rparr>
        True AdminDashboardView = AdminDashboardView"
  using ProtectedRoute_gate [of "\<lparr>user = None, loading = True\<rparr>" True AdminDashboardView]
    ProtectedRoute_gate [of "\<lparr>user = None, loading = False\<rparr>" False UserDashboardView]
    ProtectedRoute_gate [of "\<lparr>user = Some \<lparr>email = ''p@example.com'', role = ''user''\<rparr>, loading = False\<rparr>"
       True AdminDashboardView "\<lparr>email = ''p@example.com'', role = ''user''\<rparr>"]
    ProtectedRoute_gate [of "\<lparr>user = Some \<lparr>email = ''p@example.com'', role = ''user''\<rparr>, loading = False\<rparr>"
       False UserDashboardView "\<lparr>email = ''p@example.com'', role = ''user''\<rparr>"]
    ProtectedRoute_gate [of "\<lparr>user = Some \<lparr>email = ''a@example.com'', role = ''admin''\<rparr>, loading = False\<rparr>"
       True AdminDashboardView "\<lparr>email = ''a@example.com'', role = ''admin''\<rparr>"]
  by simp

text \<open>
  C3. For an authenticated user the root route's dispatcher yields the admin dashboard
  when the role is \<open>admin\<close> and the user dashboard for any other role; once session
  restoration is over the root route renders exactly what the dispatcher yields; and any
  two authenticated sessions whose users have the same role get the same dashboard,
  whatever their other fields.
\<close>

theorem root_route_dispatch_by_role:
  assumes "user a = Some u"
  shows "DashboardRouter a = (if role u = ''admin'' then AdminDashboardView else UserDashboardView)
       \<and> (\<not> loading a \<longrightarrow> App a ''/'' = DashboardRouter a)
       \<and> (\<forall>a' u'. user a' = Some u' \<and> role u' = role u \<longrightarrow> DashboardRouter a' = DashboardRouter a)"
  using assms by (simp add: DashboardRouter_def App_def ProtectedRoute_def)

theorem root_route_dispatch_by_role_witness:
  "App \<lparr>user = Some \<lparr>email = ''a@example.com'', role = ''admin''\<rparr>, loading = False\<rparr> ''/''
     = AdminDashboardView
   \<and> App \<lparr>user = Some \<lparr>email = ''p@example.com'', role = ''user''\<rparr>, loading = False\<rparr> ''/''
     = UserDashboardView"
  using root_route_dispatch_by_role
      [of "\<lparr>user = Some \<lparr>email = ''a@example.com'', role = ''admin''\<rparr>, loading = False\<rparr>"
          "\<lparr>email = ''a@example.com'', role = ''admin''\<rparr>"]
    root_route_dispatch_by_role
      [of "\<lparr>user = Some \<lparr>email = ''p@example.com'', role = ''user''\<rparr>, loading = False\<rparr>"
          "\<lparr>email = ''p@example.com'', role = ''user''\<rparr>"]
  by simp

section \<open>The admin dashboard: refresh\<close>

lemma fetchData_resolved:
  "fetchData b (Resolved rs) (Resolved us) s =
     (s\<lparr>reports := rs, users := us\<rparr>,
      [ApiRequest (api_get b ''/reports'' None), ApiRequest (api_get b ''/users'' None)])"
  by (simp add: fetchData_def fetchData_try_def)

lemma promise_all_rejected:
  "(\<exists>e. promise_all x y = Rejected e) \<longleftrightarrow> (\<exists>e. x = Rejected e) \<or> (\<exists>e. y = Rejected e)"
  by (cases x; cases y) simp_all

lemma fetchData_rejected:
  assumes "(\<exists>e. reportsRes = Rejected e) \<or> (\<exists>e. usersRes = Rejected e)"
  shows "fetchData b reportsRes usersRes s =
     (s, [ApiRequest (api_get b ''/reports'' None), ApiRequest (api_get b ''/users'' None),
          ToastError (JStr ''Failed to fetch dashboard data'')])"
proof -
  from assms obtain e where "promise_all reportsRes usersRes = Rejected e"
    using promise_all_rejected by blast
  then show ?thesis
    by (simp add: fetchData_def fetchData_try_def)
qed

lemma fetchData_cases:
  "(\<exists>rs us. reportsRes = Resolved rs \<and> usersRes = Resolved us)
   \<or> (\<exists>e. reportsRes = Rejected e) \<or> (\<exists>e. usersRes = Rejected e)"
  by (cases reportsRes; cases usersRes) simp_all

lemma fetchData_form_frame:
  "file_sel (fst (fetchData b reportsRes usersRes s)) = file_sel s
   \<and> selectedUser (fst (fetchData b reportsRes usersRes s)) = selectedUser s"
  using fetchData_cases [of reportsRes usersRes]
  by (auto simp add: fetchData_resolved fetchData_rejected)

lemma fetchData_requests:
  "api_requests (snd (fetchData b reportsRes usersRes s)) =
     [api_get b ''/reports'' None, api_get b ''/users'' None]"
  using fetchData_cases [of reportsRes usersRes]
  by (auto simp add: fetchData_resolved fetchData_rejected)

text \<open>
  C5. A refresh issues the request for the reports and the request for the users
  together, before either answer is looked at, and issues nothing else. When both
  resolve, the two collections are replaced by the two answers and no notice is shown.
  When either rejects, the whole refresh fails: the state, and so both collections as
  they were displayed, is exactly what it was, and the one notice shown is the
  fetch-failed notice.
\<close>

theorem fetchData_all_or_nothing:
  "(\<exists>rest. snd (fetchData b reportsRes usersRes s) =
        [ApiRequest (api_get b ''/reports'' None), ApiRequest (api_get b ''/users'' None)] @ rest
        \<and> api_requests rest = [])
   \<and> (reportsRes = Resolved rs \<and> usersRes = Resolved us \<longrightarrow>
        fst (fetchData b reportsRes usersRes s) = s\<lparr>reports := rs, users := us\<rparr>
        \<and> notices (snd (fetchData b reportsRes usersRes s)) = [])
   \<and> ((\<exists>e. reportsRes = Rejected e) \<or> (\<exists>e. usersRes = Rejected e) \<longrightarrow>
        fst (fetchData b reportsRes usersRes s) = s
        \<and> notices (snd (fetchData b reportsRes usersRes s)) = [JStr ''Failed to fetch dashboard data''])"
  using fetchData_cases [of reportsRes usersRes]
  by (auto simp add: fetchData_resolved fetchData_rejected)

theorem fetchData_all_or_nothing_witness:
  "fetchData \<lparr>localStorage = [''token'' \<mapsto> ''abc''], REACT_APP_BACKEND_URL = None\<rparr>
       (Resolved [\<lparr>id_r = ''7'', original_name = ''new.pdf'', user_email = ''p@example.com'',
                   file_type = ''pdf'', created_at = ''2024-01-02''\<rparr>])
       (Rejected (AxiosError None))
       \<lparr>reports = [\<lparr>id_r = ''1'', original_name = ''old.pdf'', user_email = ''p@example.com'',
                     file_type = ''pdf'', created_at = ''2024-01-01''\<rparr>],
        users = [\<lparr>id_u = ''u1'', email_u = ''p@example.com''\<rparr>],
        selectedUser = [], file_sel = None\<rparr>
     = (\<lparr>reports = [\<lparr>id_r = ''1'', original_name = ''old.pdf'', user_email = ''p@example.com'',
                     file_type = ''pdf'', created_at = ''2024-01-01''\<rparr>],
         users = [\<lparr>id_u = ''u1'', email_u = ''p@example.com''\<rparr>],
         selectedUser = [], file_sel = None\<rparr>,
        [ApiRequest (api_get \<lparr>localStorage = [''token'' \<mapsto> ''abc''], REACT_APP_BACKEND_URL = None\<rparr> ''/reports'' None),
         ApiRequest (api_get \<lparr>localStorage = [''token'' \<mapsto> ''abc''], REACT_APP_BACKEND_URL = None\<rparr> ''/users'' None),
         ToastError (JStr ''Failed to fetch dashboard data'')])
   \<and> fst (fetchData \<lparr>localStorage = [''token'' \<mapsto> ''abc''], REACT_APP_BACKEND_URL = None\<rparr>
       (Resolved [\<lparr>id_r = ''7'', original_name = ''new.pdf'', user_email = ''p@example.com'',
                   file_type = ''pdf'', created_at = ''2024-01-02''\<rparr>])
       (Resolved [])
       \<lparr>reports = [], users = [\<lparr>id_u = ''u1'', email_u = ''p@example.com''\<rparr>],
        selectedUser = ''x'', file_sel = None\<rparr>)
     = \<lparr>reports = [\<lparr>id_r = ''7'', original_name = ''new.pdf'', user_email = ''p@example.com'',
                   file_type = ''pdf'', created_at = ''2024-01-02''\<rparr>],
        users = [], selectedUser = ''x'', file_sel = None\<rparr>"
  using fetchData_all_or_nothing
      [of "\<lparr>localStorage = [''token'' \<mapsto> ''abc''], REACT_APP_BACKEND_URL = None\<rparr>"
          "Resolved [\<lparr>id_r = ''7'', original_name = ''new.pdf'', user_email = ''p@example.com'',
                   file_type = ''pdf'', created_at = ''2024-01-02''\<rparr>]"
          "Rejected (AxiosError None)"
          "\<lparr>reports = [\<lparr>id_r = ''1'', original_name = ''old.pdf'', user_email = ''p@example.com'',
                     file_type = ''pdf'', created_at = ''2024-01-01''\<rparr>],
            users = [\<lparr>id_u = ''u1'', email_u = ''p@example.com''\<rparr>],
            selectedUser = [], file_sel = None\<rparr>"]
    fetchData_all_or_nothing
      [of "\<lparr>localStorage = [''token'' \<mapsto> ''abc''], REACT_APP_BACKEND_URL = None\<rparr>"
          "Resolved [\<lparr>id_r = ''7'', original_name = ''new.pdf'', user_email = ''p@example.com'',
                   file_type = ''pdf'', created_at = ''2024-01-02''\<rparr>]"
          "Resolved []"
          "\<lparr>reports = [], users = [\<lparr>id_u = ''u1'', email_u = ''p@example.com''\<rparr>],
            selectedUser = ''x'', file_sel = None\<rparr>"
          "[\<lparr>id_r = ''7'', original_name = ''new.pdf'', user_email = ''p@example.com'',
                   file_type = ''pdf'', created_at = ''2024-01-02''\<rparr>]" "[]"]
  by (simp add: fetchData_def fetchData_try_def)

section \<open>The admin dashboard: upload\<close>

lemma handleUpload_resolved:
  assumes "file_sel s = Some f" and "selectedUser s \<noteq> []"
  shows "handleUpload b (Resolved x) reportsRes usersRes s =
     (fst (fetchData b reportsRes usersRes (s\<lparr>file_sel := None, selectedUser := []\<rparr>)),
      [PreventDefault,
       ApiRequest (api_post b ''/reports/upload''
         [(''file'', FileField f), (''user_email'', TextField (selectedUser s))]
         [''Content-Type'' \<mapsto> ''multipart/form-data'']),
       ToastSuccess ''Report uploaded successfully'']
      @ snd (fetchData b reportsRes usersRes (s\<lparr>file_sel := None, selectedUser := []\<rparr>)))"
  using assms
  by (simp add: handleUpload_def handleUpload_try_def FormData_append_def form_file_def
      split: prod.split)

lemma handleUpload_rejected:
  assumes "file_sel s = Some f" and "selectedUser s \<noteq> []"
  shows "handleUpload b (Rejected err) reportsRes usersRes s =
     (s,
      [PreventDefault,
       ApiRequest (api_post b ''/reports/upload''
         [(''file'', FileField f), (''user_email'', TextField (selectedUser s))]
         [''Content-Type'' \<mapsto> ''multipart/form-data'']),
       ToastError (js_or (err_detail err) (JStr ''Upload failed''))])"
  using assms
  by (simp add: handleUpload_def handleUpload_try_def FormData_append_def form_file_def)

text \<open>
  C4. When the upload action runs with no file selected or no target user selected (or
  neither), it issues no network request, shows the notice that asks for both, and leaves
  the state as it was.
\<close>

theorem handleUpload_validation:
  assumes "file_sel s = None \<or> selectedUser s = []"
  shows "handleUpload b postRes reportsRes usersRes s =
           (s, [PreventDefault, ToastError (JStr ''Please select both a file and a user'')])
       \<and> api_requests (snd (handleUpload b postRes reportsRes usersRes s)) = []
       \<and> notices (snd (handleUpload b postRes reportsRes usersRes s)) =
           [JStr ''Please select both a file and a user'']"
  using assms by (simp add: handleUpload_def)

theorem handleUpload_validation_witness:
  "api_requests (snd (handleUpload \<lparr>localStorage = Map.empty, REACT_APP_BACKEND_URL = None\<rparr>
       (Resolved ()) (Resolved []) (Resolved [])
       \<lparr>reports = [], users = [], selectedUser = ''patient@example.com'', file_sel = None\<rparr>)) = []
   \<and> notices (snd (handleUpload \<lparr>localStorage = Map.empty, REACT_APP_BACKEND_URL = None\<rparr>
       (Resolved ()) (Resolved []) (Resolved [])
       \<lparr>reports = [], users = [], selectedUser = [], file_sel = Some (File ''lipid_panel.pdf'' ''%PDF'')\<rparr>))
       = [JStr ''Please select both a file and a user'']"
  using handleUpload_validation
      [of "\<lparr>reports = [], users = [], selectedUser = ''patient@example.com'', file_sel = None\<rparr>"
          "\<lparr>localStorage = Map.empty, REACT_APP_BACKEND_URL = None\<rparr>"
          "Resolved ()" "Resolved []" "Resolved []"]
    handleUpload_validation
      [of "\<lparr>reports = [], users = [], selectedUser = [], file_sel = Some (File ''lipid_panel.pdf'' ''%PDF'')\<rparr>"
          "\<lparr>localStorage = Map.empty, REACT_APP_BACKEND_URL = None\<rparr>"
          "Resolved ()" "Resolved []" "Resolved []"]
  by simp

text \<open>
  C6. An upload with both a file and a target user selected posts the two as a multipart
  form. When the post resolves, the selected file and the selected user are reset, the
  success message is shown and the list is refreshed: the two refresh requests follow
  the post, and the final state is the refresh's result on the cleared form. When the
  post rejects, the one notice shown is the \<open>detail\<close> of the server's error response
  when it has one that is truthy (for a string: non-empty), and the generic
  upload-failed notice otherwise.
\<close>

theorem handleUpload_success_and_failure:
  assumes "file_sel s = Some f" and "selectedUser s \<noteq> []"
  shows "(postRes = Resolved () \<longrightarrow>
            file_sel (fst (handleUpload b postRes reportsRes usersRes s)) = None
          \<and> selectedUser (fst (handleUpload b postRes reportsRes usersRes s)) = []
          \<and> fst (handleUpload b postRes reportsRes usersRes s) =
              fst (fetchData b reportsRes usersRes (s\<lparr>file_sel := None, selectedUser := []\<rparr>))
          \<and> snd (handleUpload b postRes reportsRes usersRes s) =
              [PreventDefault,
               ApiRequest (api_post b ''/reports/upload''
                 [(''file'', FileField f), (''user_email'', TextField (selectedUser s))]
                 [''Content-Type'' \<mapsto> ''multipart/form-data'']),
               ToastSuccess ''Report uploaded successfully'']
              @ snd (fetchData b reportsRes usersRes (s\<lparr>file_sel := None, selectedUser := []\<rparr>))
          \<and> api_requests (snd (handleUpload b postRes reportsRes usersRes s)) =
              [api_post b ''/reports/upload''
                 [(''file'', FileField f), (''user_email'', TextField (selectedUser s))]
                 [''Content-Type'' \<mapsto> ''multipart/form-data''],
               api_get b ''/reports'' None, api_get b ''/users'' None])
       \<and> (postRes = Rejected err \<and> truthy (err_detail err) \<longrightarrow>
            notices (snd (handleUpload b postRes reportsRes usersRes s)) = [err_detail err])
       \<and> (postRes = Rejected err \<and> \<not> truthy (err_detail err) \<longrightarrow>
            notices (snd (handleUpload b postRes reportsRes usersRes s)) = [JStr ''Upload failed''])"
  using assms
  by (simp add: handleUpload_resolved handleUpload_rejected fetchData_form_frame
      fetchData_requests js_or_def)

theorem handleUpload_success_and_failure_witness:
  "fst (handleUpload \<lparr>localStorage = Map.empty, REACT_APP_BACKEND_URL = None\<rparr>
          (Resolved ()) (Resolved []) (Resolved [])
          \<lparr>reports = [], users = [], selectedUser = ''patient@example.com'',
           file_sel = Some (File ''lipid_panel.pdf'' ''%PDF'')\<rparr>)
     = \<lparr>reports = [], users = [], selectedUser = [], file_sel = None\<rparr>
   \<and> notices (snd (handleUpload \<lparr>localStorage = Map.empty, REACT_APP_BACKEND_URL = None\<rparr>
          (Rejected (AxiosError (Some (ErrorResponse (Some (ErrorBody (JStr ''User not found'')))))))
          (Resolved []) (Resolved [])
          \<lparr>reports = [], users = [], selectedUser = ''patient@example.com'',
           file_sel = Some (File ''lipid_panel.pdf'' ''%PDF'')\<rparr>))
     = [JStr ''User not found'']
   \<and> notices (snd (handleUpload \<lparr>localStorage = Map.empty, REACT_APP_BACKEND_URL = None\<rparr>
          (Rejected (AxiosError None))
          (Resolved []) (Resolved [])
          \<lparr>reports = [], users = [], selectedUser = ''patient@example.com'',
           file_sel = Some (File ''lipid_panel.pdf'' ''%PDF'')\<rparr>))
     = [JStr ''Upload failed'']"
  using handleUpload_success_and_failure
      [of "\<lparr>reports = [], users = [], selectedUser = ''patient@example.com'',
            file_sel = Some (File ''lipid_panel.pdf'' ''%PDF'')\<rparr>"
          "File ''lipid_panel.pdf'' ''%PDF''" "Resolved ()"
          "\<lparr>localStorage = Map.empty, REACT_APP_BACKEND_URL = None\<rparr>"
          "Resolved []" "Resolved []"]
    handleUpload_success_and_failure
      [of "\<lparr>reports = [], users = [], selectedUser = ''patient@example.com'',
            file_sel = Some (File ''lipid_panel.pdf'' ''%PDF'')\<rparr>"
          "File ''lipid_panel.pdf'' ''%PDF''"
          "Rejected (AxiosError (Some (ErrorResponse (Some (ErrorBody (JStr ''User not found''))))))"
          "\<lparr>localStorage = Map.empty, REACT_APP_BACKEND_URL = None\<rparr>"
          "Resolved []" "Resolved []"
          "AxiosError (Some (ErrorResponse (Some (ErrorBody (JStr ''User not found'')))))"]
    handleUpload_success_and_failure
      [of "\<lparr>reports = [], users = [], selectedUser = ''patient@example.com'',
            file_sel = Some (File ''lipid_panel.pdf'' ''%PDF'')\<rparr>"
          "File ''lipid_panel.pdf'' ''%PDF''"
          "Rejected (AxiosError None)"
          "\<lparr>localStorage = Map.empty, REACT_APP_BACKEND_URL = None\<rparr>"
          "Resolved []" "Resolved []" "AxiosError None"]
  by (simp add: err_detail_def fetchData_resolved)

text \<open>
  C10. When the upload's request rejects, the dashboard's state is exactly what it was
  before the attempt: the selected file, the selected user, the reports and the users
  keep their values.
\<close>

theorem handleUpload_failure_frame:
  assumes "postRes = Rejected err"
  shows "fst (handleUpload b postRes reportsRes usersRes s) = s
       \<and> file_sel (fst (handleUpload b postRes reportsRes usersRes s)) = file_sel s
       \<and> selectedUser (fst (handleUpload b postRes reportsRes usersRes s)) = selectedUser s
       \<and> reports (fst (handleUpload b postRes reportsRes usersRes s)) = reports s
       \<and> users (fst (handleUpload b postRes reportsRes usersRes s)) = users s"
proof -
  have "fst (handleUpload b (Rejected err) reportsRes usersRes s) = s"
    by (simp add: handleUpload_def handleUpload_try_def)
  with assms show ?thesis by simp
qed

theorem handleUpload_failure_frame_witness:
  "fst (handleUpload \<lparr>localStorage = Map.empty, REACT_APP_BACKEND_URL = None\<rparr>
          (Rejected (AxiosError None)) (Resolved []) (Resolved [])
          \<lparr>reports = [], users = [\<lparr>id_u = ''u1'', email_u = ''patient@example.com''\<rparr>],
           selectedUser = ''patient@example.com'',
           file_sel = Some (File ''lipid_panel.pdf'' ''%PDF'')\<rparr>)
     = \<lparr>reports = [], users = [\<lparr>id_u = ''u1'', email_u = ''patient@example.com''\<rparr>],
        selectedUser = ''patient@example.com'',
        file_sel = Some (File ''lipid_panel.pdf'' ''%PDF'')\<rparr>"
  using handleUpload_failure_frame
      [of "Rejected (AxiosError None)" "AxiosError None"
          "\<lparr>localStorage = Map.empty, REACT_APP_BACKEND_URL = None\<rparr>"
          "Resolved []" "Resolved []"
          "\<lparr>reports = [], users = [\<lparr>id_u = ''u1'', email_u = ''patient@example.com''\<rparr>],
           selectedUser = ''patient@example.com'',
           file_sel = Some (File ''lipid_panel.pdf'' ''%PDF'')\<rparr>"]
  by simp

section \<open>The admin dashboard: delete\<close>

lemma handleDelete_resolved:
  "handleDelete b True (Resolved x) reportsRes usersRes ident s =
     (fst (fetchData b reportsRes usersRes s),
      [WindowConfirm ''Are you sure you want to delete this report?'',
       ApiRequest (api_delete b (''/reports/'' @ ident)),
       ToastSuccess ''Report deleted'']
      @ snd (fetchData b reportsRes usersRes s))"
  by (simp add: handleDelete_def handleDelete_try_def split: prod.split)

lemma handleDelete_rejected:
  "handleDelete b True (Rejected err) reportsRes usersRes ident s =
     (s,
      [WindowConfirm ''Are you sure you want to delete this report?'',
       ApiRequest (api_delete b (''/reports/'' @ ident)),
       ToastError (JStr ''Delete failed'')])"
  by (simp add: handleDelete_def handleDelete_try_def)

lemma handleDelete_declined:
  "handleDelete b False deleteRes reportsRes usersRes ident s =
     (s, [WindowConfirm ''Are you sure you want to delete this report?''])"
  by (simp add: handleDelete_def)

text \<open>
  C7. A delete action first asks for confirmation. Declined, it does nothing more: no
  request is issued and the state is unchanged. Confirmed, it issues the delete request
  for the report's identifier; when that resolves, the success message is shown and the
  list is refreshed; when it rejects, the handler still completes, with the state
  unchanged and the delete-failed notice shown.
\<close>

theorem handleDelete_confirm_then_refresh_or_notice:
  "(\<not> confirmed \<longrightarrow>
      handleDelete b confirmed deleteRes reportsRes usersRes ident s =
        (s, [WindowConfirm ''Are you sure you want to delete this report?''])
      \<and> api_requests (snd (handleDelete b confirmed deleteRes reportsRes usersRes ident s)) = [])
   \<and> (\<exists>rest. snd (handleDelete b confirmed deleteRes reportsRes usersRes ident s) =
         WindowConfirm ''Are you sure you want to delete this report?'' # rest)
   \<and> (confirmed \<and> deleteRes = Resolved () \<longrightarrow>
        fst (handleDelete b confirmed deleteRes reportsRes usersRes ident s) =
          fst (fetchData b reportsRes usersRes s)
      \<and> snd (handleDelete b confirmed deleteRes reportsRes usersRes ident s) =
          [WindowConfirm ''Are you sure you want to delete this report?'',
           ApiRequest (api_delete b (''/reports/'' @ ident)),
           ToastSuccess ''Report deleted'']
          @ snd (fetchData b reportsRes usersRes s)
      \<and> api_requests (snd (handleDelete b confirmed deleteRes reportsRes usersRes ident s)) =
          [api_delete b (''/reports/'' @ ident), api_get b ''/reports'' None, api_get b ''/users'' None])
   \<and> (confirmed \<and> deleteRes = Rejected err \<longrightarrow>
        handleDelete b confirmed deleteRes reportsRes usersRes ident s =
          (s, [WindowConfirm ''Are you sure you want to delete this report?'',
               ApiRequest (api_delete b (''/reports/'' @ ident)),
               ToastError (JStr ''Delete failed'')]))"
proof (cases confirmed)
  case False
  then show ?thesis by (simp add: handleDelete_declined)
next
  case True
  then show ?thesis
    by (cases deleteRes)
      (simp_all add: handleDelete_resolved handleDelete_rejected fetchData_requests)
qed

theorem handleDelete_confirm_then_refresh_or_notice_witness:
  "api_requests (snd (handleDelete \<lparr>localStorage = Map.empty, REACT_APP_BACKEND_URL = None\<rparr>
       False (Resolved ()) (Resolved []) (Resolved []) ''42'' admin_initial)) = []
   \<and> handleDelete \<lparr>localStorage = Map.empty, REACT_APP_BACKEND_URL = None\<rparr>
       True (Rejected (AxiosError None)) (Resolved []) (Resolved []) ''42'' admin_initial
     = (admin_initial,
        [WindowConfirm ''Are you sure you want to delete this report?'',
         ApiRequest (api_delete \<lparr>localStorage = Map.empty, REACT_APP_BACKEND_URL = None\<rparr> ''/reports/42''),
         ToastError (JStr ''Delete failed'')])
   \<and> api_requests (snd (handleDelete \<lparr>localStorage = Map.empty, REACT_APP_BACKEND_URL = None\<rparr>
       True (Resolved ()) (Resolved []) (Resolved []) ''42'' admin_initial))
     = [api_delete \<lparr>localStorage = Map.empty, REACT_APP_BACKEND_URL = None\<rparr> ''/reports/42'',
        api_get \<lparr>localStorage = Map.empty, REACT_APP_BACKEND_URL = None\<rparr> ''/reports'' None,
        api_get \<lparr>localStorage = Map.empty, REACT_APP_BACKEND_URL = None\<rparr> ''/users'' None]"
  using handleDelete_confirm_then_refresh_or_notice
      [of False "\<lparr>localStorage = Map.empty, REACT_APP_BACKEND_URL = None\<rparr>"
          "Resolved ()" "Resolved []" "Resolved []" "''42''" admin_initial]
    handleDelete_confirm_then_refresh_or_notice
      [of True "\<lparr>localStorage = Map.empty, REACT_APP_BACKEND_URL = None\<rparr>"
          "Rejected (AxiosError None)" "Resolved []" "Resolved []" "''42''" admin_initial
          "AxiosError None"]
    handleDelete_confirm_then_refresh_or_notice
      [of True "\<lparr>localStorage = Map.empty, REACT_APP_BACKEND_URL = None\<rparr>"
          "Resolved ()" "Resolved []" "Resolved []" "''42''" admin_initial]
  by (simp add: fetchData_resolved)

section \<open>The user dashboard: preview and download\<close>

lemma backend_url_cases:
  "(REACT_APP_BACKEND_URL b = Some u \<and> u \<noteq> [] \<longrightarrow> backend_url b = u)
   \<and> (REACT_APP_BACKEND_URL b = None \<or> REACT_APP_BACKEND_URL b = Some [] \<longrightarrow>
        backend_url b = default_backend_url)"
  by (auto simp add: backend_url_def truthy_str_def template_str_def)

text \<open>
  C8. A preview action does one thing: it opens, in a new browsing context
  (\<open>_blank\<close>), the URL made of the configured base URL, \<open>/reports/\<close>, the report's
  identifier and \<open>/preview?token=\<close> followed by the token read from local storage. It
  issues no request through the HTTP client, hence sets no header. The base URL is the
  environment's override when that is set and non-empty, and the fixed default when it
  is not set.
\<close>

theorem handlePreview_opens_preview_url:
  "handlePreview b reportId =
     [WindowOpen (backend_url b @ ''/reports/'' @ reportId @ ''/preview?token=''
                    @ template_str (getItem b ''token'')) ''_blank'']
   \<and> api_requests (handlePreview b reportId) = []
   \<and> (getItem b ''token'' = Some t \<longrightarrow>
        handlePreview b reportId =
          [WindowOpen (backend_url b @ ''/reports/'' @ reportId @ ''/preview?token='' @ t) ''_blank''])
   \<and> (REACT_APP_BACKEND_URL b = Some u \<and> u \<noteq> [] \<longrightarrow> backend_url b = u)
   \<and> (REACT_APP_BACKEND_URL b = None \<longrightarrow> backend_url b = default_backend_url)
   \<and> preview_onClick b r = handlePreview b (id_r r)"
  by (simp add: handlePreview_def template_str_def backend_url_cases preview_onClick_def)

theorem handlePreview_opens_preview_url_witness:
  "preview_onClick \<lparr>localStorage = [''token'' \<mapsto> ''abc''], REACT_APP_BACKEND_URL = Some ''http://localhost:8000/api''\<rparr>
       \<lparr>id_r = ''42'', original_name = ''lipid_panel.pdf'', user_email = ''patient@example.com'',
        file_type = ''pdf'', created_at = ''2024-01-01''\<rparr>
     = [WindowOpen ''http://localhost:8000/api/reports/42/preview?token=abc'' ''_blank'']
   \<and> handlePreview \<lparr>localStorage = [''token'' \<mapsto> ''abc''], REACT_APP_BACKEND_URL = None\<rparr> ''42''
     = [WindowOpen ''https://lab-report-hub-1.preview.emergentagent.com/api/reports/42/preview?token=abc'' ''_blank'']"
  using handlePreview_opens_preview_url
      [of "\<lparr>localStorage = [''token'' \<mapsto> ''abc''], REACT_APP_BACKEND_URL = Some ''http://localhost:8000/api''\<rparr>"
          "''42''" "''abc''" "''http://localhost:8000/api''"
          "\<lparr>id_r = ''42'', original_name = ''lipid_panel.pdf'', user_email = ''patient@example.com'',
        file_type = ''pdf'', created_at = ''2024-01-01''\<rparr>"]
    handlePreview_opens_preview_url
      [of "\<lparr>localStorage = [''token'' \<mapsto> ''abc''], REACT_APP_BACKEND_URL = None\<rparr>"
          "''42''" "''abc''"]
  by (simp add: getItem_def default_backend_url_def backend_url_def truthy_str_def template_str_def)

lemma handleDownload_resolved:
  "handleDownload b (Resolved d) reportId filename =
     [ApiRequest (api_get b (''/reports/'' @ reportId @ ''/download'') (Some ''blob'')),
      CreateObjectURL d,
      AppendChild \<lparr>href = Some (ObjectURL d), download = Some filename\<rparr>,
      Click \<lparr>href = Some (ObjectURL d), download = Some filename\<rparr>,
      Remove \<lparr>href = Some (ObjectURL d), download = Some filename\<rparr>]"
  by (simp add: handleDownload_def handleDownload_try_def Blob_def createElement_a_def Let_def)

lemma handleDownload_rejected:
  "handleDownload b (Rejected err) reportId filename =
     [ApiRequest (api_get b (''/reports/'' @ reportId @ ''/download'') (Some ''blob'')),
      ToastError (JStr ''Download failed'')]"
  by (simp add: handleDownload_def handleDownload_try_def)

text \<open>
  C9. A download action requests the report's download endpoint as a blob. When the
  request resolves, the handler clicks an anchor whose target is the object URL of the
  content received and whose \<open>download\<close> attribute is the file name passed in, so
  exactly one file is saved, the content received under exactly that name, and no
  notice is shown. When it rejects, nothing is saved and the
  download-failed notice is shown. The download button of a report passes the report's
  identifier and its original name.
\<close>

theorem handleDownload_saves_under_suggested_name:
  "api_requests (handleDownload b res reportId filename) =
     [api_get b (''/reports/'' @ reportId @ ''/download'') (Some ''blob'')]
   \<and> (res = Resolved d \<longrightarrow>
        handleDownload b res reportId filename =
          [ApiRequest (api_get b (''/reports/'' @ reportId @ ''/download'') (Some ''blob'')),
           CreateObjectURL d,
           AppendChild \<lparr>href = Some (ObjectURL d), download = Some filename\<rparr>,
           Click \<lparr>href = Some (ObjectURL d), download = Some filename\<rparr>,
           Remove \<lparr>href = Some (ObjectURL d), download = Some filename\<rparr>]
        \<and> saved_files (handleDownload b res reportId filename) = [(d, filename)]
        \<and> notices (handleDownload b res reportId filename) = [])
   \<and> (res = Rejected err \<longrightarrow>
        saved_files (handleDownload b res reportId filename) = []
        \<and> notices (handleDownload b res reportId filename) = [JStr ''Download failed''])
   \<and> download_onClick b res r = handleDownload b res (id_r r) (original_name r)"
  by (cases res) (simp_all add: handleDownload_resolved handleDownload_rejected download_onClick_def)

theorem handleDownload_saves_under_suggested_name_witness:
  "saved_files (download_onClick \<lparr>localStorage = [''token'' \<mapsto> ''abc''], REACT_APP_BACKEND_URL = None\<rparr>
       (Resolved ''%PDF-1.4'')
       \<lparr>id_r = ''42'', original_name = ''lipid_panel.pdf'', user_email = ''patient@example.com'',
        file_type = ''pdf'', created_at = ''2024-01-01''\<rparr>)
     = [(''%PDF-1.4'', ''lipid_panel.pdf'')]
   \<and> notices (download_onClick \<lparr>localStorage = [''token'' \<mapsto> ''abc''], REACT_APP_BACKEND_URL = None\<rparr>
       (Rejected (AxiosError None))
       \<lparr>id_r = ''42'', original_name = ''lipid_panel.pdf'', user_email = ''patient@example.com'',
        file_type = ''pdf'', created_at = ''2024-01-01''\<rparr>)
     = [JStr ''Download failed'']"
  using handleDownload_saves_under_suggested_name
      [of "\<lparr>localStorage = [''token'' \<mapsto> ''abc''], REACT_APP_BACKEND_URL = None\<rparr>"
          "Resolved ''%PDF-1.4''" "''42''" "''lipid_panel.pdf''" "''%PDF-1.4''" _
          "\<lparr>id_r = ''42'', original_name = ''lipid_panel.pdf'', user_email = ''patient@example.com'',
        file_type = ''pdf'', created_at = ''2024-01-01''\<rparr>"]
    handleDownload_saves_under_suggested_name
      [of "\<lparr>localStorage = [''token'' \<mapsto> ''abc''], REACT_APP_BACKEND_URL = None\<rparr>"
          "Rejected (AxiosError None)" "''42''" "''lipid_panel.pdf''" _ "AxiosError None"
          "\<lparr>id_r = ''42'', original_name = ''lipid_panel.pdf'', user_email = ''patient@example.com'',
        file_type = ''pdf'', created_at = ''2024-01-01''\<rparr>"]
  by simp

end
